theory Spec2Isabelle
  imports Complex_Main "HOL-Library.Sublist"
begin

section \<open>Python strings\<close>

text \<open>
  A Python \<open>str\<close> is a sequence of Unicode code points, so it is modelled as a list of
  natural numbers. Source literals are written as HOL strings and converted.
\<close>

type_synonym pstr = "nat list"

definition py_str :: "string \<Rightarrow> pstr" where
  "py_str s = map of_char s"

definition nl :: pstr where
  "nl = [10]"

definition apos :: pstr where
  "apos = [39]"

text \<open>The code points for which \<open>str.isspace\<close> holds; \<open>str.strip()\<close> removes them.\<close>

definition isspace :: "nat \<Rightarrow> bool" where
  "isspace c = ((9 \<le> c \<and> c \<le> 13) \<or> (28 \<le> c \<and> c \<le> 32) \<or> c = 133 \<or> c = 160
     \<or> c = 5760 \<or> (8192 \<le> c \<and> c \<le> 8202) \<or> c = 8232 \<or> c = 8233 \<or> c = 8239
     \<or> c = 8287 \<or> c = 12288)"

definition strip :: "pstr \<Rightarrow> pstr" where
  "strip s = rev (dropWhile isspace (rev (dropWhile isspace s)))"

text \<open>
  \<open>s.split(sep)\<close> for a non-empty separator: a scan from the left that cuts at every
  occurrence found and resumes behind it. \<open>acc\<close> is the piece collected so far.
\<close>

function split_from :: "pstr \<Rightarrow> pstr \<Rightarrow> pstr \<Rightarrow> pstr list" where
  "split_from sep acc s =
     (if s = [] then [acc]
      else if sep \<noteq> [] \<and> prefix sep s then acc # split_from sep [] (drop (length sep) s)
      else split_from sep (acc @ [hd s]) (tl s))"
  by pat_completeness auto
termination
  by (relation "measure (\<lambda>(sep, acc, s). length s)") auto

declare split_from.simps [simp del]

definition split :: "pstr \<Rightarrow> pstr \<Rightarrow> pstr list" where
  "split s sep = split_from sep [] s"

text \<open>The decimal text an f-string inserts for a non-negative integer.\<close>

fun dec :: "nat \<Rightarrow> pstr" where
  "dec n = (if n < 10 then [48 + n] else dec (n div 10) @ [48 + n mod 10])"

text \<open>An occurrence of \<open>sep\<close> in \<open>s\<close> starting at index \<open>i\<close>.\<close>

definition occurs_at :: "pstr \<Rightarrow> pstr \<Rightarrow> nat \<Rightarrow> bool" where
  "occurs_at sep s i = (i + length sep \<le> length s \<and> take (length sep) (drop i s) = sep)"

section \<open>Deserialized JSON, responses and exceptions\<close>

text \<open>
  What \<open>response.json()\<close> returns: \<open>None\<close>, a bool, an int, a float, a str, a list or a
  dict. A dict is kept as its items; lookup is \<open>map_of\<close>.
\<close>

datatype json =
    JNull
  | JBool bool
  | JInt int
  | JFloat rat
  | JStr pstr
  | JList "json list"
  | JDict "(pstr \<times> json) list"

record response =
  status_code :: nat
  response_text :: pstr

text \<open>
  The exceptions (subclasses of \<open>Exception\<close>) that can be raised inside the \<open>try\<close> block.
  \<open>HTTPError\<close> carries \<open>e.response\<close>; the others carry \<open>str(e)\<close>. \<open>ConnectionError\<close>
  stands for \<open>requests.exceptions.ConnectionError\<close> and its subclasses, \<open>OtherException\<close>
  for every exception class that no earlier constructor names.
\<close>

datatype py_exception =
    HTTPError response
  | ConnectionError pstr
  | JSONDecodeError pstr
  | TypeError pstr
  | AttributeError pstr
  | KeyError pstr
  | IndexError pstr
  | OtherException pstr

text \<open>The operations of the interpreter that fail on a value of the wrong type.\<close>

datatype fault =
    NotIterable json
  | BadSubscript json pstr
  | NoAttribute json pstr
  | MissingKey pstr
  | IndexOutOfRange

text \<open>
  What the libraries and the interpreter supply: the JSON decoder behind
  \<open>response.json()\<close> (\<open>Inl d\<close> when it raises \<open>JSONDecodeError\<close> with text \<open>d\<close>), the text an
  f-string inserts for a deserialized value, and the message of an interpreter fault.
\<close>

record runtime =
  json_decode :: "pstr \<Rightarrow> pstr + json"
  format_value :: "json \<Rightarrow> pstr"
  error_text :: "fault \<Rightarrow> pstr"

text \<open>\<open>k in v\<close> for a str \<open>k\<close>: substring, element or key membership.\<close>

fun py_in :: "runtime \<Rightarrow> pstr \<Rightarrow> json \<Rightarrow> py_exception + bool" where
  "py_in rt k (JStr s) = Inr (sublist k s)"
| "py_in rt k (JList xs) = Inr (JStr k \<in> set xs)"
| "py_in rt k (JDict kvs) = Inr (map_of kvs k \<noteq> None)"
| "py_in rt k v = Inl (TypeError (error_text rt (NotIterable v)))"

text \<open>\<open>v[k]\<close> for a str \<open>k\<close>.\<close>

fun py_getitem :: "runtime \<Rightarrow> json \<Rightarrow> pstr \<Rightarrow> py_exception + json" where
  "py_getitem rt (JDict kvs) k =
     (case map_of kvs k of
        Some v \<Rightarrow> Inr v
      | None \<Rightarrow> Inl (KeyError (error_text rt (MissingKey k))))"
| "py_getitem rt v k = Inl (TypeError (error_text rt (BadSubscript v k)))"

section \<open>Configuration\<close>

definition API_URL :: pstr where
  "API_URL = py_str ''https://api-inference.huggingface.co/models/mistralai/Mistral-7B-Instruct-v0.3''"

definition default_model_name :: pstr where
  "default_model_name = py_str ''Mistral-7B-Instruct-v0.2''"

definition cross_mark :: pstr where
  "cross_mark = [10060]"

definition marker :: pstr where
  "marker = py_str ''[/INST]''"

definition generated_text_key :: pstr where
  "generated_text_key = py_str ''generated_text''"

section \<open>The request\<close>

record generation_params =
  max_new_tokens :: nat
  temperature :: rat
  do_sample :: bool
  top_p :: rat

record payload =
  inputs :: pstr
  parameters :: generation_params

definition formatted_prompt :: "pstr \<Rightarrow> pstr" where
  "formatted_prompt prompt_instruction =
     py_str ''<s>[INST] '' @ prompt_instruction @ py_str '' [/INST]''"

definition make_payload :: "pstr \<Rightarrow> payload" where
  "make_payload prompt_instruction =
     \<lparr>inputs = formatted_prompt prompt_instruction,
      parameters = \<lparr>max_new_tokens = 512, temperature = 7 / 10, do_sample = True,
                    top_p = 95 / 100\<rparr>\<rparr>"

text \<open>
  \<open>requests.post\<close> either returns a response or raises.
\<close>

datatype post_outcome = Returned response | Raised py_exception

section \<open>Reading the response (lines 51 to 62)\<close>

text \<open>Lines 55 to 60, for the first element \<open>r0\<close> of the list.\<close>

definition extract_generated :: "runtime \<Rightarrow> json \<Rightarrow> py_exception + pstr" where
  "extract_generated rt r0 =
     (case py_getitem rt r0 generated_text_key of
        Inl e \<Rightarrow> Inl e
      | Inr generated_text \<Rightarrow>
          (case py_in rt marker generated_text of
             Inl e \<Rightarrow> Inl e
           | Inr True \<Rightarrow>
               (case generated_text of
                  JStr s \<Rightarrow>
                    (case split s marker of
                       [] \<Rightarrow> Inl (IndexError (error_text rt IndexOutOfRange))
                     | p # ps \<Rightarrow> Inr (strip (last (p # ps))))
                | v \<Rightarrow> Inl (AttributeError (error_text rt (NoAttribute v (py_str ''split'')))))
           | Inr False \<Rightarrow>
               (case generated_text of
                  JStr s \<Rightarrow> Inr (strip s)
                | v \<Rightarrow> Inl (AttributeError (error_text rt (NoAttribute v (py_str ''strip'')))))))"

definition format_error :: "runtime \<Rightarrow> json \<Rightarrow> pstr" where
  "format_error rt result =
     cross_mark @ py_str '' Error: Unexpected API response format: '' @ format_value rt result"

text \<open>Lines 52 to 62: the shape test, then the extraction or the format error.\<close>

fun parse_result :: "runtime \<Rightarrow> json \<Rightarrow> py_exception + pstr" where
  "parse_result rt (JList (r0 # rs)) =
     (case py_in rt generated_text_key r0 of
        Inl e \<Rightarrow> Inl e
      | Inr True \<Rightarrow> extract_generated rt r0
      | Inr False \<Rightarrow> Inr (format_error rt (JList (r0 # rs))))"
| "parse_result rt result = Inr (format_error rt result)"

text \<open>Lines 51 to 62: \<open>response.json()\<close>, then \<open>parse_result\<close>.\<close>

definition parse_body :: "runtime \<Rightarrow> pstr \<Rightarrow> py_exception + pstr" where
  "parse_body rt body =
     (case json_decode rt body of
        Inl d \<Rightarrow> Inl (JSONDecodeError d)
      | Inr result \<Rightarrow> parse_result rt result)"

text \<open>
  Lines 48 to 62: the outcome of the post, \<open>raise_for_status\<close> (which raises for the
  statuses 400 to 599), then the parse.
\<close>

definition try_body :: "runtime \<Rightarrow> post_outcome \<Rightarrow> py_exception + pstr" where
  "try_body rt outcome =
     (case outcome of
        Raised e \<Rightarrow> Inl e
      | Returned r \<Rightarrow>
          if 400 \<le> status_code r \<and> status_code r < 600 then Inl (HTTPError r)
          else parse_body rt (response_text r))"

section \<open>The except clauses (lines 64 to 77)\<close>

definition unexpected_error :: "pstr \<Rightarrow> pstr" where
  "unexpected_error d = cross_mark @ py_str '' An unexpected error occurred during API call: '' @ d"

definition connection_error :: "pstr \<Rightarrow> pstr" where
  "connection_error d =
     cross_mark @ py_str '' Connection Error: Could not connect to Hugging Face API. Please check your internet connection. Details: '' @ d"

definition http_error :: "pstr \<Rightarrow> response \<Rightarrow> pstr" where
  "http_error model_name r =
     (if status_code r = 404 then
        cross_mark @ py_str '' Error 404: Model '' @ apos @ model_name @ apos
          @ py_str '' not found at '' @ API_URL
          @ py_str ''. Please double-check the model ID and its availability on Hugging Face.''
      else if status_code r = 401 then
        cross_mark @ py_str '' Error 401: Unauthorized. Please check your Hugging Face API token (HF_API_KEY).''
      else if status_code r = 503 then
        cross_mark @ py_str '' Error 503: Service Unavailable. The model '' @ apos @ model_name @ apos
          @ py_str '' is currently loading or busy. Please try again in a moment.''
      else
        cross_mark @ py_str '' HTTP Error '' @ dec (status_code r) @ py_str '': '' @ response_text r)"

fun handle_exception :: "pstr \<Rightarrow> py_exception \<Rightarrow> pstr" where
  "handle_exception model_name (HTTPError r) = http_error model_name r"
| "handle_exception model_name (ConnectionError d) = connection_error d"
| "handle_exception model_name (JSONDecodeError d) = unexpected_error d"
| "handle_exception model_name (TypeError d) = unexpected_error d"
| "handle_exception model_name (AttributeError d) = unexpected_error d"
| "handle_exception model_name (KeyError d) = unexpected_error d"
| "handle_exception model_name (IndexError d) = unexpected_error d"
| "handle_exception model_name (OtherException d) = unexpected_error d"

text \<open>The value \<open>query_huggingface\<close> returns for an outcome of the post.\<close>

definition query_result :: "runtime \<Rightarrow> pstr \<Rightarrow> post_outcome \<Rightarrow> pstr" where
  "query_result rt model_name outcome =
     (case try_body rt outcome of
        Inr s \<Rightarrow> s
      | Inl e \<Rightarrow> handle_exception model_name e)"

section \<open>The network, the cache and the decorated function\<close>

text \<open>
  The state of the process: the memo table of \<open>st.cache_data\<close>, keyed by the argument
  of the call, and the payloads posted so far. The endpoint answers the \<open>n\<close>-th post
  of a payload with an outcome of its own choosing.
\<close>

record world =
  cache :: "pstr \<rightharpoonup> pstr"
  sent :: "payload list"

type_synonym network = "nat \<Rightarrow> payload \<Rightarrow> post_outcome"

definition initial_world :: world where
  "initial_world = \<lparr>cache = Map.empty, sent = []\<rparr>"

text \<open>The undecorated function: one post, then the result.\<close>

definition query_huggingface_body ::
  "runtime \<Rightarrow> network \<Rightarrow> world \<Rightarrow> pstr \<Rightarrow> pstr \<Rightarrow> pstr \<times> world" where
  "query_huggingface_body rt net w prompt_instruction model_name =
     (let p = make_payload prompt_instruction;
          outcome = net (length (sent w)) p
      in (query_result rt model_name outcome, w\<lparr>sent := sent w @ [p]\<rparr>))"

text \<open>The function as decorated, called with the prompt alone as at line 126.\<close>

definition query_huggingface :: "runtime \<Rightarrow> network \<Rightarrow> world \<Rightarrow> pstr \<Rightarrow> pstr \<times> world" where
  "query_huggingface rt net w prompt_instruction =
     (case cache w prompt_instruction of
        Some r \<Rightarrow> (r, w)
      | None \<Rightarrow>
          (let (r, w') = query_huggingface_body rt net w prompt_instruction default_model_name
           in (r, w'\<lparr>cache := (cache w')(prompt_instruction \<mapsto> r)\<rparr>)))"

text \<open>The cache holds exactly the prompts that were posted, each posted once.\<close>

definition cache_matches_sent :: "world \<Rightarrow> bool" where
  "cache_matches_sent w =
     (distinct (sent w) \<and> dom (cache w) = {p. make_payload p \<in> set (sent w)})"

text \<open>A run of invocations, each on the state the one before left.\<close>

fun invoke_all :: "runtime \<Rightarrow> network \<Rightarrow> world \<Rightarrow> pstr list \<Rightarrow> pstr list \<times> world" where
  "invoke_all rt net w [] = ([], w)"
| "invoke_all rt net w (p # ps) =
     (let (r, w') = query_huggingface rt net w p;
          (rs, w'') = invoke_all rt net w' ps
      in (r # rs, w''))"

section \<open>The page (lines 85 to 128)\<close>

definition summarize_label :: pstr where
  "summarize_label = [128218] @ py_str '' Summarize Text''"

definition explain_label :: pstr where
  "explain_label = [128161] @ py_str '' Explain Concept''"

definition model_questions_label :: pstr where
  "model_questions_label = [128221] @ py_str '' Generate Model Questions''"

definition quiz_label :: pstr where
  "quiz_label = [129504] @ py_str '' Generate Quiz Questions''"

definition features :: "pstr list" where
  "features = [summarize_label, explain_label, model_questions_label, quiz_label]"

definition ind :: pstr where
  "ind = py_str ''                ''"

definition quiz_head :: pstr where
  "quiz_head = py_str ''Create 3 multiple-choice questions (MCQs) with 4 options each, and 2 true/false questions on the topic '' @ apos"

definition quiz_tail :: pstr where
  "quiz_tail =
     apos @ py_str ''.'' @ nl
     @ ind @ py_str ''For MCQs, clearly indicate the correct option (A, B, C, or D).'' @ nl
     @ ind @ py_str ''For True/False questions, clearly state 'True' or 'False'.'' @ nl
     @ nl
     @ ind @ py_str ''Format your output strictly as follows:'' @ nl
     @ ind @ py_str ''1. MCQ Question 1'' @ nl
     @ ind @ py_str ''   a) Option A'' @ nl
     @ ind @ py_str ''   b) Option B'' @ nl
     @ ind @ py_str ''   c) Option C'' @ nl
     @ ind @ py_str ''   d) Option D'' @ nl
     @ ind @ py_str ''   Correct Answer: [Option Letter, e.g., C]'' @ nl
     @ nl
     @ ind @ py_str ''2. True/False Question 1'' @ nl
     @ ind @ py_str ''   Answer: [True/False]'' @ nl
     @ ind"

definition build_prompt :: "pstr \<Rightarrow> pstr \<Rightarrow> pstr" where
  "build_prompt option user_input =
     (if option = summarize_label then
        py_str ''Summarize the following text concisely and accurately, highlighting the main points:''
          @ nl @ nl @ user_input
      else if option = explain_label then
        py_str ''Explain the following concept in simple, easy-to-understand terms for a student:''
          @ nl @ nl @ py_str ''Concept: '' @ user_input
      else if option = model_questions_label then
        py_str ''Generate 5 detailed model exam/essay questions for the topic '' @ apos @ user_input @ apos
          @ py_str ''. Ensure the questions are open-ended and require analytical answers. Format them as a numbered list.''
      else if option = quiz_label then quiz_head @ user_input @ quiz_tail
      else [])"

text \<open>What the handler puts on the page: the warning, or the result written.\<close>

datatype page_output = Warning pstr | Written pstr

definition empty_input_warning :: pstr where
  "empty_input_warning = [9888] @ py_str '' Please enter some text or a topic.''"

definition get_ai_assistance ::
  "runtime \<Rightarrow> network \<Rightarrow> world \<Rightarrow> pstr \<Rightarrow> pstr \<Rightarrow> page_output \<times> world" where
  "get_ai_assistance rt net w option user_input =
     (if strip user_input = [] then (Warning empty_input_warning, w)
      else
        (let prompt = build_prompt option user_input;
             (result, w') = query_huggingface rt net w prompt
         in (Written result, w')))"

section \<open>Stand-ins for worked examples\<close>

text \<open>
  A runtime that decodes one body to one value and rejects every other body, and an
  endpoint that answers every post with the same outcome.
\<close>

definition example_runtime :: "pstr \<Rightarrow> json \<Rightarrow> runtime" where
  "example_runtime body v =
     \<lparr>json_decode = (\<lambda>b. if b = body then Inr v else Inl (py_str ''Expecting value'')),
      format_value = (\<lambda>v. py_str ''<value>''),
      error_text = (\<lambda>f. py_str ''<fault>'')\<rparr>"

definition constant_network :: "post_outcome \<Rightarrow> network" where
  "constant_network outcome = (\<lambda>n p. outcome)"

section \<open>Facts about splitting and occurrences\<close>

lemma split_from_Nil: "split_from sep acc [] = [acc]"
  by (subst split_from.simps) simp

lemma split_from_cut:
  "s \<noteq> [] \<Longrightarrow> sep \<noteq> [] \<Longrightarrow> prefix sep s \<Longrightarrow>
   split_from sep acc s = acc # split_from sep [] (drop (length sep) s)"
  by (subst split_from.simps) simp

lemma split_from_skip:
  "s \<noteq> [] \<Longrightarrow> \<not> prefix sep s \<Longrightarrow>
   split_from sep acc s = split_from sep (acc @ [hd s]) (tl s)"
  by (subst split_from.simps) simp

lemma split_from_nonempty: "split_from sep acc s \<noteq> []"
  by (induction sep acc s rule: split_from.induct) (subst split_from.simps, simp)

lemma sublist_tl: "s \<noteq> [] \<Longrightarrow> sublist sep (tl s) \<Longrightarrow> sublist sep s"
  by (cases s) (auto simp: sublist_Cons_right)

lemma split_from_no_occurrence:
  "\<not> sublist sep s \<Longrightarrow> split_from sep acc s = [acc @ s]"
proof (induction sep acc s rule: split_from.induct)
  case (1 sep acc s)
  show ?case
  proof (cases "s = []")
    case True
    then show ?thesis by (simp add: split_from_Nil)
  next
    case False
    have np: "\<not> prefix sep s" using "1.prems" prefix_imp_sublist by blast
    have nt: "\<not> sublist sep (tl s)" using "1.prems" False sublist_tl by blast
    have "split_from sep acc s = split_from sep (acc @ [hd s]) (tl s)"
      using split_from_skip[OF False np] .
    also have "\<dots> = [(acc @ [hd s]) @ tl s]"
      using "1.IH"(2) False np nt by blast
    finally show ?thesis using False by simp
  qed
qed

lemma no_overlap:
  assumes "sep \<noteq> []" "hd sep \<notin> set (tl sep)" "prefix sep (pre @ sep @ rest)" "pre \<noteq> []"
  shows "length sep \<le> length pre"
proof (rule ccontr)
  assume "\<not> length sep \<le> length pre"
  then have lt: "length pre < length sep" by simp
  from assms(3) obtain zs where eq: "pre @ sep @ rest = sep @ zs" by (auto simp: prefix_def)
  have "(pre @ sep @ rest) ! length pre = hd sep"
    using assms(1) by (simp add: nth_append hd_conv_nth)
  moreover have "(sep @ zs) ! length pre = sep ! length pre"
    using lt by (simp add: nth_append)
  ultimately have "sep ! length pre = hd sep" using eq by simp
  moreover have "0 < length pre" using assms(4) by simp
  ultimately have "hd sep \<in> set (tl sep)"
  proof -
    obtain k where k: "length pre = Suc k" using \<open>0 < length pre\<close> by (cases "length pre") auto
    have "k < length (tl sep)" using lt k by simp
    moreover have "tl sep ! k = sep ! Suc k" using lt k by (simp add: nth_tl)
    ultimately show ?thesis using \<open>sep ! length pre = hd sep\<close> k by (metis nth_mem)
  qed
  then show False using assms(2) by simp
qed

lemma last_split_from:
  assumes "sep \<noteq> []" "hd sep \<notin> set (tl sep)" "\<not> sublist sep rest"
  shows "last (split_from sep acc (pre @ sep @ rest)) = rest"
proof (induction "length pre" arbitrary: pre acc rule: less_induct)
  case less
  let ?s = "pre @ sep @ rest"
  have ne: "?s \<noteq> []" using assms(1) by simp
  show ?case
  proof (cases "prefix sep ?s")
    case True
    have step: "split_from sep acc ?s = acc # split_from sep [] (drop (length sep) ?s)"
      using split_from_cut[OF ne assms(1) True] .
    show ?thesis
    proof (cases "pre = []")
      case True
      then have "drop (length sep) ?s = rest" by simp
      then show ?thesis using step split_from_no_occurrence[OF assms(3)] by simp
    next
      case False
      have le: "length sep \<le> length pre" using no_overlap[OF assms(1,2) True False] .
      have d: "drop (length sep) ?s = drop (length sep) pre @ sep @ rest" using le by simp
      have "length (drop (length sep) pre) < length pre" using False assms(1) by simp
      then have "last (split_from sep [] (drop (length sep) pre @ sep @ rest)) = rest"
        using less by blast
      then show ?thesis using step d split_from_nonempty by simp
    qed
  next
    case False
    then have pne: "pre \<noteq> []" by auto
    have step: "split_from sep acc ?s = split_from sep (acc @ [hd ?s]) (tl ?s)"
      using split_from_skip[OF ne False] .
    have t: "tl ?s = tl pre @ sep @ rest" using pne by simp
    have "length (tl pre) < length pre" using pne by simp
    then have "last (split_from sep (acc @ [hd ?s]) (tl pre @ sep @ rest)) = rest"
      using less by blast
    then show ?thesis using step t by simp
  qed
qed

lemma occurs_at_decomp:
  "occurs_at sep s i \<Longrightarrow> s = take i s @ sep @ drop (i + length sep) s"
  unfolding occurs_at_def
  by (metis append_take_drop_id drop_drop add.commute)

lemma occurs_at_append:
  "occurs_at sep rest k \<Longrightarrow> occurs_at sep (pre @ rest) (length pre + k)"
  unfolding occurs_at_def by simp

lemma sublist_iff_occurs: "sublist sep s \<longleftrightarrow> (\<exists>i. occurs_at sep s i)"
proof
  assume "sublist sep s"
  then obtain ps ss where "s = ps @ sep @ ss" by (auto simp: sublist_def)
  then have "occurs_at sep s (length ps)" by (simp add: occurs_at_def)
  then show "\<exists>i. occurs_at sep s i" ..
next
  assume "\<exists>i. occurs_at sep s i"
  then obtain i where "occurs_at sep s i" ..
  from occurs_at_decomp[OF this] show "sublist sep s" unfolding sublist_def by blast
qed

lemma last_occurrence_rest:
  assumes "occurs_at sep s i" "\<forall>j>i. \<not> occurs_at sep s j" "sep \<noteq> []"
  shows "\<not> sublist sep (drop (i + length sep) s)"
proof
  assume "sublist sep (drop (i + length sep) s)"
  then obtain k where k: "occurs_at sep (drop (i + length sep) s) k"
    using sublist_iff_occurs by blast
  have len: "i + length sep \<le> length s" using assms(1) by (simp add: occurs_at_def)
  have "occurs_at sep (take (i + length sep) s @ drop (i + length sep) s) (length (take (i + length sep) s) + k)"
    using occurs_at_append[OF k] .
  then have "occurs_at sep s (i + length sep + k)" using len by (simp add: min_absorb2)
  moreover have "i + length sep + k > i" using assms(3) by simp
  ultimately show False using assms(2) by blast
qed

lemma last_split_last_occurrence:
  assumes "sep \<noteq> []" "hd sep \<notin> set (tl sep)" "occurs_at sep s i" "\<forall>j>i. \<not> occurs_at sep s j"
  shows "last (split s sep) = drop (i + length sep) s"
proof -
  have "last (split_from sep [] (take i s @ sep @ drop (i + length sep) s)) = drop (i + length sep) s"
    using last_split_from[OF assms(1,2) last_occurrence_rest[OF assms(3,4,1)]] .
  then show ?thesis using occurs_at_decomp[OF assms(3)] by (simp add: split_def)
qed

lemma marker_unbordered: "marker \<noteq> [] \<and> hd marker \<notin> set (tl marker)"
  by (simp add: marker_def py_str_def)

section \<open>The success path\<close>

lemma later_occurrence_sublist:
  assumes "occurs_at sep s j" "i < j"
  shows "sublist sep (drop (Suc i) s)"
proof -
  have "s = take j s @ sep @ drop (j + length sep) s" using occurs_at_decomp[OF assms(1)] .
  then have "drop (Suc i) s = drop (Suc i) (take j s @ sep @ drop (j + length sep) s)" by simp
  also have "\<dots> = drop (Suc i) (take j s) @ sep @ drop (j + length sep) s"
  proof -
    have "j \<le> length s" using assms(1) by (simp add: occurs_at_def)
    then have "Suc i \<le> length (take j s)" using assms(2) by simp
    then show ?thesis by simp
  qed
  finally show ?thesis unfolding sublist_def by blast
qed

lemma strip_empty_iff: "strip s = [] \<longleftrightarrow> (\<forall>c \<in> set s. isspace c)"
proof
  assume "strip s = []"
  then have all: "\<forall>c \<in> set (dropWhile isspace s). isspace c"
    by (simp add: strip_def dropWhile_eq_Nil_conv)
  have "dropWhile isspace s = []"
  proof (rule ccontr)
    assume ne: "dropWhile isspace s \<noteq> []"
    then have "\<not> isspace (hd (dropWhile isspace s))" by (rule hd_dropWhile)
    moreover have "hd (dropWhile isspace s) \<in> set (dropWhile isspace s)" using ne by simp
    ultimately show False using all by blast
  qed
  then show "\<forall>c \<in> set s. isspace c" by (simp add: dropWhile_eq_Nil_conv)
next
  assume "\<forall>c \<in> set s. isspace c"
  then show "strip s = []" by (auto simp: strip_def dest: set_dropWhileD)
qed

lemma blank_has_no_marker: "strip s = [] \<Longrightarrow> \<not> sublist marker s"
proof
  assume blank: "strip s = []" and sub: "sublist marker s"
  have "91 \<in> set marker" by (simp add: marker_def py_str_def)
  then have "91 \<in> set s" using set_mono_sublist[OF sub] by blast
  then have "isspace 91" using blank strip_empty_iff by blast
  then show False by (simp add: isspace_def)
qed

lemma extract_generated_text:
  assumes "map_of items generated_text_key = Some (JStr t)"
  shows "extract_generated rt (JDict items) =
           Inr (if sublist marker t then strip (last (split t marker)) else strip t)"
proof (cases "sublist marker t")
  case True
  obtain p ps where "split t marker = p # ps"
    using split_from_nonempty[of marker "[]" t] by (cases "split t marker") (auto simp: split_def)
  then show ?thesis using assms True by (simp add: extract_generated_def)
next
  case False
  then show ?thesis using assms by (simp add: extract_generated_def)
qed

lemma parse_result_text:
  assumes "map_of items generated_text_key = Some (JStr t)"
  shows "parse_result rt (JList (JDict items # others)) =
           Inr (if sublist marker t then strip (last (split t marker)) else strip t)"
  using assms extract_generated_text[OF assms, of rt] by simp

lemma query_result_returned:
  "\<not> (400 \<le> status_code r \<and> status_code r < 600) \<Longrightarrow>
   query_result rt model_name (Returned r) =
     (case parse_body rt (response_text r) of Inr s \<Rightarrow> s | Inl e \<Rightarrow> handle_exception model_name e)"
  by (auto simp: query_result_def try_body_def)

lemma query_result_text:
  assumes "\<not> (400 \<le> status_code r \<and> status_code r < 600)"
    and "json_decode rt (response_text r) = Inr (JList (JDict items # others))"
    and "map_of items generated_text_key = Some (JStr t)"
  shows "query_result rt model_name (Returned r) =
           (if sublist marker t then strip (last (split t marker)) else strip t)"
  using query_result_returned[OF assms(1)] assms(2) parse_result_text[OF assms(3)]
  by (simp add: parse_body_def)

text \<open>
  Claim C1. When the response is not an error status and its body decodes to a non-empty
  list whose first element is a record with a \<open>generated_text\<close> string, the function
  returns the text behind the last occurrence of the marker \<open>[/INST]\<close>, stripped, when
  the marker occurs, and the whole text, stripped, when it does not.
\<close>

theorem marker_extraction:
  assumes "\<not> (400 \<le> status_code r \<and> status_code r < 600)"
    and "json_decode rt (response_text r) = Inr (JList (JDict items # others))"
    and "map_of items generated_text_key = Some (JStr generated_text)"
  shows "(\<forall>i. occurs_at marker generated_text i \<and> (\<forall>j>i. \<not> occurs_at marker generated_text j) \<longrightarrow>
            query_result rt model_name (Returned r) = strip (drop (i + length marker) generated_text))
       \<and> ((\<forall>i. \<not> occurs_at marker generated_text i) \<longrightarrow>
            query_result rt model_name (Returned r) = strip generated_text)"
proof (intro conjI allI impI)
  fix i
  assume h: "occurs_at marker generated_text i \<and> (\<forall>j>i. \<not> occurs_at marker generated_text j)"
  then have sub: "sublist marker generated_text" using sublist_iff_occurs by blast
  have "last (split generated_text marker) = drop (i + length marker) generated_text"
    using last_split_last_occurrence marker_unbordered h by blast
  then show "query_result rt model_name (Returned r) = strip (drop (i + length marker) generated_text)"
    using query_result_text[OF assms] sub by simp
next
  assume "\<forall>i. \<not> occurs_at marker generated_text i"
  then have "\<not> sublist marker generated_text" using sublist_iff_occurs by blast
  then show "query_result rt model_name (Returned r) = strip generated_text"
    using query_result_text[OF assms] by simp
qed

text \<open>
  Claim C10. When the generated text is empty or blank, or when only blanks follow the
  marker, the function returns the empty string, which does not start with the cross
  mark of the error messages.
\<close>

theorem empty_answer_is_success:
  assumes "\<not> (400 \<le> status_code r \<and> status_code r < 600)"
    and "json_decode rt (response_text r) = Inr (JList (JDict items # others))"
    and "map_of items generated_text_key = Some (JStr generated_text)"
    and "strip generated_text = [] \<or> (\<exists>pre ws. generated_text = pre @ marker @ ws \<and> strip ws = [])"
  shows "query_result rt model_name (Returned r) = []
       \<and> \<not> prefix cross_mark (query_result rt model_name (Returned r))"
proof -
  have "query_result rt model_name (Returned r) = []"
    using assms(4)
  proof
    assume blank: "strip generated_text = []"
    then show ?thesis using query_result_text[OF assms(1,2,3)] blank_has_no_marker by simp
  next
    assume "\<exists>pre ws. generated_text = pre @ marker @ ws \<and> strip ws = []"
    then obtain pre ws where t: "generated_text = pre @ marker @ ws" and ws: "strip ws = []" by blast
    have sub: "sublist marker generated_text" using t by (auto simp: sublist_def)
    have "last (split generated_text marker) = ws"
      using last_split_from[of marker ws "[]" pre] marker_unbordered blank_has_no_marker[OF ws] t
      by (simp add: split_def)
    then show ?thesis using query_result_text[OF assms(1,2,3)] sub ws by simp
  qed
  then show ?thesis by (simp add: cross_mark_def)
qed

theorem marker_extraction_witness:
  "query_result
     (example_runtime (py_str ''body'')
        (JList [JDict [(generated_text_key, JStr (py_str ''<s>[INST] X [/INST] answer''))]]))
     default_model_name (Returned \<lparr>status_code = 200, response_text = py_str ''body''\<rparr>)
     = py_str ''answer''
   \<and> query_result
     (example_runtime (py_str ''body'')
        (JList [JDict [(generated_text_key, JStr (py_str ''plain text, no marker''))]]))
     default_model_name (Returned \<lparr>status_code = 200, response_text = py_str ''body''\<rparr>)
     = py_str ''plain text, no marker''"
proof
  let ?t = "py_str ''<s>[INST] X [/INST] answer''"
  let ?rt = "example_runtime (py_str ''body'') (JList [JDict [(generated_text_key, JStr ?t)]])"
  let ?r = "\<lparr>status_code = 200, response_text = py_str ''body''\<rparr>"
  have s: "\<not> (400 \<le> status_code ?r \<and> status_code ?r < 600)" by simp
  have d: "json_decode ?rt (response_text ?r) = Inr (JList (JDict [(generated_text_key, JStr ?t)] # []))"
    by (simp add: example_runtime_def)
  have m: "map_of [(generated_text_key, JStr ?t)] generated_text_key = Some (JStr ?t)" by simp
  have o: "occurs_at marker ?t 12" by (simp add: occurs_at_def marker_def py_str_def)
  have l: "\<forall>j>12. \<not> occurs_at marker ?t j"
  proof (intro allI impI notI)
    fix j :: nat
    assume "12 < j" and "occurs_at marker ?t j"
    then have "sublist marker (drop (Suc 12) ?t)" using later_occurrence_sublist by blast
    then show False by (simp add: marker_def py_str_def sublist_code)
  qed
  have "query_result ?rt default_model_name (Returned ?r) = strip (drop (12 + length marker) ?t)"
    using marker_extraction[OF s d m, of default_model_name] o l by blast
  also have "\<dots> = py_str ''answer''" by (simp add: marker_def py_str_def strip_def isspace_def)
  finally show "query_result ?rt default_model_name (Returned ?r) = py_str ''answer''" .
next
  let ?t = "py_str ''plain text, no marker''"
  let ?rt = "example_runtime (py_str ''body'') (JList [JDict [(generated_text_key, JStr ?t)]])"
  let ?r = "\<lparr>status_code = 200, response_text = py_str ''body''\<rparr>"
  have s: "\<not> (400 \<le> status_code ?r \<and> status_code ?r < 600)" by simp
  have d: "json_decode ?rt (response_text ?r) = Inr (JList (JDict [(generated_text_key, JStr ?t)] # []))"
    by (simp add: example_runtime_def)
  have m: "map_of [(generated_text_key, JStr ?t)] generated_text_key = Some (JStr ?t)" by simp
  have "\<not> sublist marker ?t" by (simp add: marker_def py_str_def sublist_code)
  then have n: "\<forall>i. \<not> occurs_at marker ?t i" using sublist_iff_occurs by blast
  have "query_result ?rt default_model_name (Returned ?r) = strip ?t"
    using marker_extraction[OF s d m, of default_model_name] n by blast
  also have "\<dots> = ?t" by (simp add: py_str_def strip_def isspace_def)
  finally show "query_result ?rt default_model_name (Returned ?r) = ?t" .
qed

theorem empty_answer_is_success_witness:
  "query_result
     (example_runtime (py_str ''body'')
        (JList [JDict [(generated_text_key, JStr (py_str ''<s>[INST] X [/INST]  ''))]]))
     default_model_name (Returned \<lparr>status_code = 200, response_text = py_str ''body''\<rparr>) = []
   \<and> query_result
     (example_runtime (py_str ''body'') (JList [JDict [(generated_text_key, JStr (py_str ''   ''))]]))
     default_model_name (Returned \<lparr>status_code = 200, response_text = py_str ''body''\<rparr>) = []"
proof
  let ?t = "py_str ''<s>[INST] X [/INST]  ''"
  let ?rt = "example_runtime (py_str ''body'') (JList [JDict [(generated_text_key, JStr ?t)]])"
  let ?r = "\<lparr>status_code = 200, response_text = py_str ''body''\<rparr>"
  have s: "\<not> (400 \<le> status_code ?r \<and> status_code ?r < 600)" by simp
  have d: "json_decode ?rt (response_text ?r) = Inr (JList (JDict [(generated_text_key, JStr ?t)] # []))"
    by (simp add: example_runtime_def)
  have m: "map_of [(generated_text_key, JStr ?t)] generated_text_key = Some (JStr ?t)" by simp
  have "?t = py_str ''<s>[INST] X '' @ marker @ py_str ''  '' \<and> strip (py_str ''  '') = []"
    by (simp add: marker_def py_str_def strip_def isspace_def)
  then have h: "strip ?t = [] \<or> (\<exists>pre ws. ?t = pre @ marker @ ws \<and> strip ws = [])" by blast
  show "query_result ?rt default_model_name (Returned ?r) = []"
    using empty_answer_is_success[OF s d m h, of default_model_name] by blast
next
  let ?t = "py_str ''   ''"
  let ?rt = "example_runtime (py_str ''body'') (JList [JDict [(generated_text_key, JStr ?t)]])"
  let ?r = "\<lparr>status_code = 200, response_text = py_str ''body''\<rparr>"
  have s: "\<not> (400 \<le> status_code ?r \<and> status_code ?r < 600)" by simp
  have d: "json_decode ?rt (response_text ?r) = Inr (JList (JDict [(generated_text_key, JStr ?t)] # []))"
    by (simp add: example_runtime_def)
  have m: "map_of [(generated_text_key, JStr ?t)] generated_text_key = Some (JStr ?t)" by simp
  have "strip ?t = []" by (simp add: py_str_def strip_def isspace_def)
  then have h: "strip ?t = [] \<or> (\<exists>pre ws. ?t = pre @ marker @ ws \<and> strip ws = [])" by blast
  show "query_result ?rt default_model_name (Returned ?r) = []"
    using empty_answer_is_success[OF s d m h, of default_model_name] by blast
qed

section \<open>Outcomes of the post\<close>

lemma query_result_http_error:
  "400 \<le> status_code r \<Longrightarrow> status_code r < 600 \<Longrightarrow>
   query_result rt model_name (Returned r) = http_error model_name r"
  by (simp add: query_result_def try_body_def)

lemma query_result_raised:
  "query_result rt model_name (Raised e) = handle_exception model_name e"
  by (simp add: query_result_def try_body_def)

lemma prefix_cross_unexpected: "prefix cross_mark (unexpected_error d)"
  by (simp add: unexpected_error_def)

lemma prefix_cross_connection: "prefix cross_mark (connection_error d)"
  by (simp add: connection_error_def)

lemma prefix_cross_http: "prefix cross_mark (http_error model_name r)"
  by (simp add: http_error_def)

lemma prefix_cross_format: "prefix cross_mark (format_error rt v)"
  by (simp add: format_error_def)

lemma prefix_cross_handle: "prefix cross_mark (handle_exception model_name e)"
  by (cases e) (simp_all add: prefix_cross_unexpected prefix_cross_connection prefix_cross_http)

lemma unexpected_not_format: "unexpected_error d \<noteq> format_error rt v"
  by (simp add: unexpected_error_def format_error_def py_str_def)

text \<open>
  Claim C2. A response with a status from 200 to 299 is handed to the parser. The
  statuses 404, 401 and 503 and every other status from 400 to 599 give their own
  messages, a connection error gives the connection message with its detail, and every
  other exception gives the generic message with its detail.
\<close>

theorem outcome_classification:
  "(200 \<le> status_code r \<and> status_code r < 300 \<longrightarrow>
      try_body rt (Returned r) = parse_body rt (response_text r)
      \<and> query_result rt model_name (Returned r) =
          (case parse_body rt (response_text r) of
             Inr s \<Rightarrow> s | Inl e \<Rightarrow> handle_exception model_name e))
   \<and> (status_code r = 404 \<longrightarrow>
      query_result rt model_name (Returned r) =
        cross_mark @ py_str '' Error 404: Model '' @ apos @ model_name @ apos
          @ py_str '' not found at '' @ API_URL
          @ py_str ''. Please double-check the model ID and its availability on Hugging Face.'')
   \<and> (status_code r = 401 \<longrightarrow>
      query_result rt model_name (Returned r) =
        cross_mark @ py_str '' Error 401: Unauthorized. Please check your Hugging Face API token (HF_API_KEY).'')
   \<and> (status_code r = 503 \<longrightarrow>
      query_result rt model_name (Returned r) =
        cross_mark @ py_str '' Error 503: Service Unavailable. The model '' @ apos @ model_name @ apos
          @ py_str '' is currently loading or busy. Please try again in a moment.'')
   \<and> (400 \<le> status_code r \<and> status_code r < 600 \<and> status_code r \<noteq> 404
        \<and> status_code r \<noteq> 401 \<and> status_code r \<noteq> 503 \<longrightarrow>
      query_result rt model_name (Returned r) =
        cross_mark @ py_str '' HTTP Error '' @ dec (status_code r) @ py_str '': '' @ response_text r)
   \<and> query_result rt model_name (Raised (ConnectionError d)) =
        cross_mark @ py_str '' Connection Error: Could not connect to Hugging Face API. Please check your internet connection. Details: '' @ d
   \<and> (e \<in> {JSONDecodeError d, TypeError d, AttributeError d, KeyError d, IndexError d,
             OtherException d} \<longrightarrow>
      query_result rt model_name (Raised e) =
        cross_mark @ py_str '' An unexpected error occurred during API call: '' @ d)"
proof (intro conjI impI)
  assume "200 \<le> status_code r \<and> status_code r < 300"
  then show "try_body rt (Returned r) = parse_body rt (response_text r)"
    by (simp add: try_body_def)
next
  assume "200 \<le> status_code r \<and> status_code r < 300"
  then have "\<not> (400 \<le> status_code r \<and> status_code r < 600)" by simp
  then show "query_result rt model_name (Returned r) =
      (case parse_body rt (response_text r) of Inr s \<Rightarrow> s | Inl e \<Rightarrow> handle_exception model_name e)"
    by (rule query_result_returned)
next
  assume "status_code r = 404"
  then show "query_result rt model_name (Returned r) =
        cross_mark @ py_str '' Error 404: Model '' @ apos @ model_name @ apos
          @ py_str '' not found at '' @ API_URL
          @ py_str ''. Please double-check the model ID and its availability on Hugging Face.''"
    by (simp add: query_result_http_error http_error_def)
next
  assume "status_code r = 401"
  then show "query_result rt model_name (Returned r) =
        cross_mark @ py_str '' Error 401: Unauthorized. Please check your Hugging Face API token (HF_API_KEY).''"
    by (simp add: query_result_http_error http_error_def)
next
  assume "status_code r = 503"
  then show "query_result rt model_name (Returned r) =
        cross_mark @ py_str '' Error 503: Service Unavailable. The model '' @ apos @ model_name @ apos
          @ py_str '' is currently loading or busy. Please try again in a moment.''"
    by (simp add: query_result_http_error http_error_def)
next
  assume "400 \<le> status_code r \<and> status_code r < 600 \<and> status_code r \<noteq> 404
        \<and> status_code r \<noteq> 401 \<and> status_code r \<noteq> 503"
  then show "query_result rt model_name (Returned r) =
        cross_mark @ py_str '' HTTP Error '' @ dec (status_code r) @ py_str '': '' @ response_text r"
    by (simp add: query_result_http_error http_error_def)
next
  show "query_result rt model_name (Raised (ConnectionError d)) =
        cross_mark @ py_str '' Connection Error: Could not connect to Hugging Face API. Please check your internet connection. Details: '' @ d"
    by (simp add: query_result_raised connection_error_def)
next
  assume "e \<in> {JSONDecodeError d, TypeError d, AttributeError d, KeyError d, IndexError d,
             OtherException d}"
  then show "query_result rt model_name (Raised e) =
        cross_mark @ py_str '' An unexpected error occurred during API call: '' @ d"
    by (auto simp: query_result_raised unexpected_error_def)
qed

theorem outcome_classification_witness:
  "query_result (example_runtime [] JNull) default_model_name
     (Returned \<lparr>status_code = 404, response_text = py_str ''Not Found''\<rparr>) =
     cross_mark @ py_str '' Error 404: Model 'Mistral-7B-Instruct-v0.2' not found at https://api-inference.huggingface.co/models/mistralai/Mistral-7B-Instruct-v0.3. Please double-check the model ID and its availability on Hugging Face.''
   \<and> query_result (example_runtime [] JNull) default_model_name
     (Returned \<lparr>status_code = 500, response_text = py_str ''oops''\<rparr>) =
     cross_mark @ py_str '' HTTP Error 500: oops''
   \<and> query_result (example_runtime [] JNull) default_model_name
     (Raised (OtherException (py_str ''timed out''))) =
     cross_mark @ py_str '' An unexpected error occurred during API call: timed out''"
proof (intro conjI)
  show "query_result (example_runtime [] JNull) default_model_name
     (Returned \<lparr>status_code = 404, response_text = py_str ''Not Found''\<rparr>) =
     cross_mark @ py_str '' Error 404: Model 'Mistral-7B-Instruct-v0.2' not found at https://api-inference.huggingface.co/models/mistralai/Mistral-7B-Instruct-v0.3. Please double-check the model ID and its availability on Hugging Face.''"
    using outcome_classification[of "\<lparr>status_code = 404, response_text = py_str ''Not Found''\<rparr>"
        "example_runtime [] JNull" default_model_name "[]" "OtherException []"]
    by (simp add: default_model_name_def API_URL_def py_str_def apos_def)
next
  show "query_result (example_runtime [] JNull) default_model_name
     (Returned \<lparr>status_code = 500, response_text = py_str ''oops''\<rparr>) =
     cross_mark @ py_str '' HTTP Error 500: oops''"
    using outcome_classification[of "\<lparr>status_code = 500, response_text = py_str ''oops''\<rparr>"
        "example_runtime [] JNull" default_model_name "[]" "OtherException []"]
    by (simp add: py_str_def)
next
  show "query_result (example_runtime [] JNull) default_model_name
     (Raised (OtherException (py_str ''timed out''))) =
     cross_mark @ py_str '' An unexpected error occurred during API call: timed out''"
    using outcome_classification[of "\<lparr>status_code = 200, response_text = []\<rparr>"
        "example_runtime [] JNull" default_model_name "py_str ''timed out''"
        "OtherException (py_str ''timed out'')"]
    by (simp add: py_str_def)
qed

section \<open>Failure branches\<close>

lemma extract_generated_success:
  assumes "extract_generated rt r0 = Inr s"
  shows "\<exists>items t. r0 = JDict items \<and> map_of items generated_text_key = Some (JStr t)
           \<and> s = (if sublist marker t then strip (last (split t marker)) else strip t)"
proof (cases r0)
  case (JDict items)
  show ?thesis
  proof (cases "map_of items generated_text_key")
    case None
    then show ?thesis using assms JDict by (simp add: extract_generated_def)
  next
    case (Some v)
    show ?thesis
    proof (cases v)
      case (JStr t)
      then show ?thesis
        using assms JDict Some extract_generated_text[where items=items and t=t and rt=rt] by simp
    qed (use assms JDict Some in \<open>auto simp: extract_generated_def split: bool.splits\<close>)
  qed
qed (use assms in \<open>auto simp: extract_generated_def\<close>)

lemma parse_result_cases:
  "prefix cross_mark (case parse_result rt v of Inr s \<Rightarrow> s | Inl e \<Rightarrow> handle_exception model_name e)
   \<or> (\<exists>items others t. v = JList (JDict items # others)
         \<and> map_of items generated_text_key = Some (JStr t)
         \<and> parse_result rt v =
             Inr (if sublist marker t then strip (last (split t marker)) else strip t))"
proof (cases "\<exists>r0 rs. v = JList (r0 # rs)")
  case False
  then have "parse_result rt v = Inr (format_error rt v)"
    by (cases "(rt, v)" rule: parse_result.cases) auto
  then show ?thesis by (simp add: prefix_cross_format)
next
  case True
  then obtain r0 rs where v: "v = JList (r0 # rs)" by blast
  show ?thesis
  proof (cases "py_in rt generated_text_key r0")
    case (Inl e)
    then show ?thesis using v by (simp add: prefix_cross_handle)
  next
    case (Inr b)
    show ?thesis
    proof (cases b)
      case False
      then show ?thesis using v Inr by (simp add: prefix_cross_format)
    next
      case True
      then have p: "parse_result rt v = extract_generated rt r0" using v Inr by simp
      show ?thesis
      proof (cases "extract_generated rt r0")
        case (Inl e)
        then show ?thesis using p by (simp add: prefix_cross_handle)
      next
        case (Inr s)
        from extract_generated_success[OF this] Inr p v show ?thesis by auto
      qed
    qed
  qed
qed

text \<open>
  Claim C8. Every exception raised in the try block is turned into a string that starts
  with the cross mark, and so is the shape error; for every outcome of the post the
  function returns a string that starts with the cross mark unless it is the text
  extracted from a well-shaped response.
\<close>

theorem failures_start_with_cross_mark:
  "prefix cross_mark (handle_exception model_name e)
   \<and> prefix cross_mark (format_error rt v)
   \<and> (prefix cross_mark (query_result rt model_name outcome)
      \<or> (\<exists>r items others t. outcome = Returned r
            \<and> \<not> (400 \<le> status_code r \<and> status_code r < 600)
            \<and> json_decode rt (response_text r) = Inr (JList (JDict items # others))
            \<and> map_of items generated_text_key = Some (JStr t)
            \<and> query_result rt model_name outcome =
                (if sublist marker t then strip (last (split t marker)) else strip t)))"
proof (intro conjI)
  show "prefix cross_mark (handle_exception model_name e)" by (rule prefix_cross_handle)
  show "prefix cross_mark (format_error rt v)" by (rule prefix_cross_format)
  show "prefix cross_mark (query_result rt model_name outcome)
      \<or> (\<exists>r items others t. outcome = Returned r
            \<and> \<not> (400 \<le> status_code r \<and> status_code r < 600)
            \<and> json_decode rt (response_text r) = Inr (JList (JDict items # others))
            \<and> map_of items generated_text_key = Some (JStr t)
            \<and> query_result rt model_name outcome =
                (if sublist marker t then strip (last (split t marker)) else strip t))"
  proof (cases outcome)
    case (Raised x)
    then show ?thesis by (simp add: query_result_raised prefix_cross_handle)
  next
    case (Returned r)
    show ?thesis
    proof (cases "400 \<le> status_code r \<and> status_code r < 600")
      case True
      then show ?thesis using Returned by (simp add: query_result_http_error prefix_cross_http)
    next
      case False
      note q = query_result_returned[OF False, where rt=rt and model_name=model_name]
      show ?thesis
      proof (cases "json_decode rt (response_text r)")
        case (Inl d)
        then show ?thesis using q Returned by (simp add: parse_body_def prefix_cross_unexpected)
      next
        case (Inr w)
        then have pb: "parse_body rt (response_text r) = parse_result rt w"
          by (simp add: parse_body_def)
        from parse_result_cases[where rt=rt and v=w and model_name=model_name] show ?thesis
        proof
          assume "prefix cross_mark
            (case parse_result rt w of Inr s \<Rightarrow> s | Inl e \<Rightarrow> handle_exception model_name e)"
          then show ?thesis using q pb Returned by simp
        next
          assume "\<exists>items others t. w = JList (JDict items # others)
             \<and> map_of items generated_text_key = Some (JStr t)
             \<and> parse_result rt w =
                 Inr (if sublist marker t then strip (last (split t marker)) else strip t)"
          then obtain items others t where "w = JList (JDict items # others)"
            "map_of items generated_text_key = Some (JStr t)"
            "parse_result rt w = Inr (if sublist marker t then strip (last (split t marker)) else strip t)"
            by blast
          then show ?thesis using q pb Returned Inr False by auto
        qed
      qed
    qed
  qed
qed

theorem failures_start_with_cross_mark_witness:
  "prefix cross_mark (handle_exception default_model_name (TypeError (py_str ''bad'')))
   \<and> prefix cross_mark (query_result (example_runtime [] JNull) default_model_name
        (Returned \<lparr>status_code = 200, response_text = []\<rparr>))"
proof
  show "prefix cross_mark (handle_exception default_model_name (TypeError (py_str ''bad'')))"
    using failures_start_with_cross_mark[where model_name=default_model_name and e="TypeError (py_str ''bad'')"]
    by blast
next
  let ?rt = "example_runtime [] JNull"
  let ?o = "Returned \<lparr>status_code = 200, response_text = []\<rparr>"
  have "json_decode ?rt [] = Inr JNull" by (simp add: example_runtime_def)
  then have "\<not> (\<exists>r items others t. ?o = Returned r
            \<and> \<not> (400 \<le> status_code r \<and> status_code r < 600)
            \<and> json_decode ?rt (response_text r) = Inr (JList (JDict items # others))
            \<and> map_of items generated_text_key = Some (JStr t)
            \<and> query_result ?rt default_model_name ?o =
                (if sublist marker t then strip (last (split t marker)) else strip t))"
    by auto
  then show "prefix cross_mark (query_result ?rt default_model_name ?o)"
    using failures_start_with_cross_mark[where model_name=default_model_name and rt="?rt" and outcome="?o"]
    by blast
qed

text \<open>
  Claim C9. When the body decodes to a list whose first element is a string that
  contains \<open>generated_text\<close>, the shape test succeeds, the field access raises, and the
  result is the generic unexpected-error message, not the format message. A body that
  does not decode gives the generic message too.
\<close>

theorem string_element_reaches_generic_branch:
  assumes "\<not> (400 \<le> status_code r \<and> status_code r < 600)"
  shows "(json_decode rt (response_text r) = Inr (JList (JStr s # others))
          \<and> sublist generated_text_key s \<longrightarrow>
            py_in rt generated_text_key (JStr s) = Inr True
            \<and> py_getitem rt (JStr s) generated_text_key =
                Inl (TypeError (error_text rt (BadSubscript (JStr s) generated_text_key)))
            \<and> query_result rt model_name (Returned r) =
                cross_mark @ py_str '' An unexpected error occurred during API call: ''
                  @ error_text rt (BadSubscript (JStr s) generated_text_key)
            \<and> query_result rt model_name (Returned r) \<noteq> format_error rt (JList (JStr s # others)))
       \<and> (json_decode rt (response_text r) = Inl d \<longrightarrow>
            query_result rt model_name (Returned r) =
              cross_mark @ py_str '' An unexpected error occurred during API call: '' @ d)"
proof (intro conjI impI)
  assume h: "json_decode rt (response_text r) = Inr (JList (JStr s # others))
          \<and> sublist generated_text_key s"
  then have q: "query_result rt model_name (Returned r) =
      unexpected_error (error_text rt (BadSubscript (JStr s) generated_text_key))"
    using query_result_returned[OF assms, where rt=rt and model_name=model_name]
    by (simp add: parse_body_def extract_generated_def)
  show "py_in rt generated_text_key (JStr s) = Inr True" using h by simp
  show "py_getitem rt (JStr s) generated_text_key =
      Inl (TypeError (error_text rt (BadSubscript (JStr s) generated_text_key)))" by simp
  show "query_result rt model_name (Returned r) =
      cross_mark @ py_str '' An unexpected error occurred during API call: ''
        @ error_text rt (BadSubscript (JStr s) generated_text_key)"
    using q by (simp add: unexpected_error_def)
  show "query_result rt model_name (Returned r) \<noteq> format_error rt (JList (JStr s # others))"
    using q unexpected_not_format by simp
next
  assume "json_decode rt (response_text r) = Inl d"
  then show "query_result rt model_name (Returned r) =
      cross_mark @ py_str '' An unexpected error occurred during API call: '' @ d"
    using query_result_returned[OF assms, where rt=rt and model_name=model_name]
    by (simp add: parse_body_def unexpected_error_def)
qed

theorem string_element_reaches_generic_branch_witness:
  "query_result (example_runtime (py_str ''body'') (JList [JStr (py_str ''see generated_text'')]))
     default_model_name (Returned \<lparr>status_code = 200, response_text = py_str ''body''\<rparr>) =
     cross_mark @ py_str '' An unexpected error occurred during API call: <fault>''
   \<and> query_result (example_runtime (py_str ''body'') JNull)
     default_model_name (Returned \<lparr>status_code = 200, response_text = py_str ''not json''\<rparr>) =
     cross_mark @ py_str '' An unexpected error occurred during API call: Expecting value''"
proof
  let ?s = "py_str ''see generated_text''"
  let ?rt = "example_runtime (py_str ''body'') (JList [JStr ?s])"
  let ?r = "\<lparr>status_code = 200, response_text = py_str ''body''\<rparr>"
  have a: "\<not> (400 \<le> status_code ?r \<and> status_code ?r < 600)" by simp
  have d: "json_decode ?rt (response_text ?r) = Inr (JList (JStr ?s # []))"
    by (simp add: example_runtime_def)
  have i: "sublist generated_text_key ?s"
    by (simp add: generated_text_key_def py_str_def sublist_code)
  have e: "error_text ?rt (BadSubscript (JStr ?s) generated_text_key) = py_str ''<fault>''"
    by (simp add: example_runtime_def)
  have "query_result ?rt default_model_name (Returned ?r) =
      cross_mark @ py_str '' An unexpected error occurred during API call: ''
        @ error_text ?rt (BadSubscript (JStr ?s) generated_text_key)"
    using string_element_reaches_generic_branch[OF a, where rt="?rt" and s="?s" and others="[]" and model_name=default_model_name] d i
    by blast
  then show "query_result ?rt default_model_name (Returned ?r) =
      cross_mark @ py_str '' An unexpected error occurred during API call: <fault>''"
    using e by (simp add: py_str_def)
next
  let ?rt = "example_runtime (py_str ''body'') JNull"
  let ?r = "\<lparr>status_code = 200, response_text = py_str ''not json''\<rparr>"
  have a: "\<not> (400 \<le> status_code ?r \<and> status_code ?r < 600)" by simp
  have d: "json_decode ?rt (response_text ?r) = Inl (py_str ''Expecting value'')"
    by (simp add: example_runtime_def py_str_def)
  have "query_result ?rt default_model_name (Returned ?r) =
      cross_mark @ py_str '' An unexpected error occurred during API call: '' @ py_str ''Expecting value''"
    using string_element_reaches_generic_branch[OF a, where rt="?rt" and d="py_str ''Expecting value''" and model_name=default_model_name] d
    by blast
  then show "query_result ?rt default_model_name (Returned ?r) =
      cross_mark @ py_str '' An unexpected error occurred during API call: Expecting value''"
    by (simp add: py_str_def)
qed

section \<open>Shape mismatches\<close>






section \<open>The cache and the handler\<close>

lemma query_huggingface_hit:
  "cache w p = Some r \<Longrightarrow> query_huggingface rt net w p = (r, w)"
  by (simp add: query_huggingface_def)

lemma query_huggingface_miss:
  "cache w p = None \<Longrightarrow>
   query_huggingface rt net w p =
     (query_result rt default_model_name (net (length (sent w)) (make_payload p)),
      w\<lparr>sent := sent w @ [make_payload p],
        cache := (cache w)(p \<mapsto> query_result rt default_model_name
                                   (net (length (sent w)) (make_payload p)))\<rparr>)"
  by (simp add: query_huggingface_def query_huggingface_body_def Let_def)

lemma make_payload_inject: "make_payload p = make_payload q \<Longrightarrow> p = q"
  by (simp add: make_payload_def formatted_prompt_def)

lemma cache_matches_initial: "cache_matches_sent initial_world"
  by (simp add: cache_matches_sent_def initial_world_def)

lemma cache_matches_step:
  assumes "cache_matches_sent w"
  shows "cache_matches_sent (snd (query_huggingface rt net w p))
       \<and> set (sent (snd (query_huggingface rt net w p))) = insert (make_payload p) (set (sent w))"
proof (cases "cache w p")
  case None
  then have "p \<notin> dom (cache w)" by auto
  then have notin: "make_payload p \<notin> set (sent w)" using assms by (simp add: cache_matches_sent_def)
  have "dom (cache w) = {q. make_payload q \<in> set (sent w)}"
    using assms by (simp add: cache_matches_sent_def)
  then have "insert p (dom (cache w)) = {q. make_payload q \<in> insert (make_payload p) (set (sent w))}"
    using make_payload_inject by auto
  then show ?thesis
    using assms notin by (simp add: query_huggingface_miss[OF None] cache_matches_sent_def)
next
  case (Some r)
  then have "p \<in> dom (cache w)" by auto
  then have "make_payload p \<in> set (sent w)" using assms by (simp add: cache_matches_sent_def)
  then show ?thesis using assms by (auto simp: query_huggingface_hit[OF Some])
qed

lemma cache_matches_invoke_all:
  "cache_matches_sent w \<Longrightarrow>
   cache_matches_sent (snd (invoke_all rt net w ps))
   \<and> set (sent (snd (invoke_all rt net w ps))) = set (sent w) \<union> make_payload ` set ps"
proof (induction ps arbitrary: w)
  case Nil
  then show ?case by simp
next
  case (Cons p ps)
  let ?w = "snd (query_huggingface rt net w p)"
  have step: "cache_matches_sent ?w \<and> set (sent ?w) = insert (make_payload p) (set (sent w))"
    using cache_matches_step[OF Cons.prems] .
  have "snd (invoke_all rt net w (p # ps)) = snd (invoke_all rt net ?w ps)"
    by (simp add: case_prod_unfold Let_def)
  then show ?case using Cons.IH[of ?w] step by auto
qed

lemma distinct_count: "distinct xs \<Longrightarrow> length (filter (\<lambda>x. x = y) xs) = (if y \<in> set xs then 1 else 0)"
  by (induction xs) auto

text \<open>
  Claim C3. From a state in which the prompt is not cached, two invocations with that
  prompt post once, and the second returns what the first returned. Over any run of
  invocations from the start of the process, each prompt invoked is posted exactly once.
\<close>

theorem one_post_per_prompt:
  "(cache w p = None \<longrightarrow>
      fst (query_huggingface rt net (snd (query_huggingface rt net w p)) p)
        = fst (query_huggingface rt net w p)
      \<and> sent (snd (query_huggingface rt net (snd (query_huggingface rt net w p)) p))
        = sent w @ [make_payload p])
   \<and> length (filter (\<lambda>x. x = make_payload q) (sent (snd (invoke_all rt net initial_world ps))))
        = (if q \<in> set ps then 1 else 0)"
proof
  show "cache w p = None \<longrightarrow>
      fst (query_huggingface rt net (snd (query_huggingface rt net w p)) p)
        = fst (query_huggingface rt net w p)
      \<and> sent (snd (query_huggingface rt net (snd (query_huggingface rt net w p)) p))
        = sent w @ [make_payload p]"
  proof
    assume miss: "cache w p = None"
    let ?r = "query_result rt default_model_name (net (length (sent w)) (make_payload p))"
    let ?w = "w\<lparr>sent := sent w @ [make_payload p], cache := (cache w)(p \<mapsto> ?r)\<rparr>"
    have first: "query_huggingface rt net w p = (?r, ?w)" using query_huggingface_miss[OF miss] .
    have "cache ?w p = Some ?r" by simp
    then have second: "query_huggingface rt net ?w p = (?r, ?w)" by (rule query_huggingface_hit)
    show "fst (query_huggingface rt net (snd (query_huggingface rt net w p)) p)
        = fst (query_huggingface rt net w p)
      \<and> sent (snd (query_huggingface rt net (snd (query_huggingface rt net w p)) p))
        = sent w @ [make_payload p]"
      using first second by simp
  qed
next
  let ?w = "snd (invoke_all rt net initial_world ps)"
  have "cache_matches_sent ?w \<and> set (sent ?w) = set (sent initial_world) \<union> make_payload ` set ps"
    using cache_matches_invoke_all[OF cache_matches_initial] .
  then have d: "distinct (sent ?w)" and s: "set (sent ?w) = make_payload ` set ps"
    by (simp_all add: cache_matches_sent_def initial_world_def)
  have "(make_payload q \<in> set (sent ?w)) = (q \<in> set ps)"
    using s make_payload_inject by auto
  then show "length (filter (\<lambda>x. x = make_payload q) (sent ?w)) = (if q \<in> set ps then 1 else 0)"
    using distinct_count[OF d, of "make_payload q"] by simp
qed

theorem one_post_per_prompt_witness:
  "fst (query_huggingface (example_runtime [] JNull) (constant_network (Raised (OtherException [])))
        (snd (query_huggingface (example_runtime [] JNull)
               (constant_network (Raised (OtherException []))) initial_world (py_str ''p''))) (py_str ''p''))
     = fst (query_huggingface (example_runtime [] JNull)
             (constant_network (Raised (OtherException []))) initial_world (py_str ''p''))
   \<and> sent (snd (query_huggingface (example_runtime [] JNull) (constant_network (Raised (OtherException [])))
        (snd (query_huggingface (example_runtime [] JNull)
               (constant_network (Raised (OtherException []))) initial_world (py_str ''p''))) (py_str ''p'')))
     = [make_payload (py_str ''p'')]
   \<and> length (filter (\<lambda>x. x = make_payload (py_str ''p''))
        (sent (snd (invoke_all (example_runtime [] JNull) (constant_network (Raised (OtherException [])))
           initial_world [py_str ''p'', py_str ''q'', py_str ''p''])))) = 1"
proof -
  have c: "cache initial_world (py_str ''p'') = None" by (simp add: initial_world_def)
  have s: "sent initial_world = []" by (simp add: initial_world_def)
  have m: "py_str ''p'' \<in> set [py_str ''p'', py_str ''q'', py_str ''p'']" by simp
  show ?thesis
    using one_post_per_prompt[where w=initial_world and p="py_str ''p''" and q="py_str ''p''"
        and rt="example_runtime [] JNull" and net="constant_network (Raised (OtherException []))"
        and ps="[py_str ''p'', py_str ''q'', py_str ''p'']"] c s m
    by simp
qed

text \<open>
  Claim C6. When the input is empty after stripping, the handler shows the warning and
  leaves the state as it was: no prompt is built, nothing is posted, nothing is cached.
\<close>

theorem blank_input_rejected:
  assumes "strip user_input = []"
  shows "get_ai_assistance rt net w option user_input = (Warning empty_input_warning, w)"
  using assms by (simp add: get_ai_assistance_def)

theorem blank_input_rejected_witness:
  "get_ai_assistance (example_runtime [] JNull) (constant_network (Raised (OtherException [])))
     initial_world quiz_label ([32, 9, 10] @ py_str ''  '')
   = (Warning empty_input_warning, initial_world)"
proof -
  have "strip ([32, 9, 10] @ py_str ''  '') = []" by (simp add: strip_def isspace_def py_str_def)
  then show ?thesis by (rule blank_input_rejected)
qed

text \<open>
  Claim C7. Whatever the feature and the input, the handler posts nothing or posts one
  payload: the wrapped prompt as \<open>inputs\<close> and the fixed generation parameters.
\<close>

theorem request_payload_form:
  "sent (snd (get_ai_assistance rt net w option user_input)) =
     (if strip user_input = [] \<or> cache w (build_prompt option user_input) \<noteq> None then sent w
      else sent w @
        [\<lparr>inputs = py_str ''<s>[INST] '' @ build_prompt option user_input @ py_str '' [/INST]'',
          parameters = \<lparr>max_new_tokens = 512, temperature = 7 / 10, do_sample = True,
                         top_p = 95 / 100\<rparr>\<rparr>])"
proof (cases "strip user_input = []")
  case True
  then show ?thesis by (simp add: get_ai_assistance_def)
next
  case False
  show ?thesis
  proof (cases "cache w (build_prompt option user_input)")
    case None
    then show ?thesis
      using False query_huggingface_miss[OF None, where rt=rt and net=net]
      by (simp add: get_ai_assistance_def Let_def make_payload_def formatted_prompt_def)
  next
    case (Some r)
    then show ?thesis
      using False query_huggingface_hit[OF Some, where rt=rt and net=net]
      by (simp add: get_ai_assistance_def Let_def)
  qed
qed

theorem request_payload_form_witness:
  "sent (snd (get_ai_assistance (example_runtime [] JNull)
      (constant_network (Raised (OtherException []))) initial_world summarize_label (py_str ''cells''))) =
     [\<lparr>inputs = py_str ''<s>[INST] Summarize the following text concisely and accurately, highlighting the main points:''
          @ nl @ nl @ py_str ''cells [/INST]'',
       parameters = \<lparr>max_new_tokens = 512, temperature = 7 / 10, do_sample = True,
                      top_p = 95 / 100\<rparr>\<rparr>]"
  using request_payload_form[where w=initial_world and option=summarize_label
      and user_input="py_str ''cells''" and rt="example_runtime [] JNull"
      and net="constant_network (Raised (OtherException []))"]
  by (simp add: initial_world_def build_prompt_def strip_def isspace_def py_str_def)

section \<open>The quiz instruction\<close>


















end
